theory Spec2Isabelle
  imports Complex_Main "HOL-Library.Sublist"
begin

section \<open>Access policy: accounts, companies and the RBAC middleware\<close>

text \<open>
  The models of \<^verbatim>\<open>models/User.js\<close> and \<^verbatim>\<open>models/Company.js\<close>. Object ids are compared
  in the source through \<^verbatim>\<open>toString()\<close>, so an id is its string. The role is the
  four-valued enum of the user schema (the spec's PLATFORM_ADMIN, PRACTITIONER,
  ORG_ADMIN and ORG_MEMBER are SUPER_ADMIN, CA, COMPANY_ADMIN and COMPANY_USER).
\<close>

type_synonym oid = string

datatype role = SUPER_ADMIN | CA | COMPANY_ADMIN | COMPANY_USER

record user =
  user_id :: oid
  role :: role
  company :: "oid option"
  invitedCompanies :: "oid list"

record invite =
  ca :: oid
  invitedAt :: nat
  invitedBy :: oid

record company_doc =
  company_oid :: oid
  representative :: oid
  companyAdmins :: "oid list"
  invitedCAs :: "invite list"

text \<open>
  What a JavaScript expression such as \<^verbatim>\<open>this.company && a === b\<close> evaluates to: the
  left operand itself when it is null or undefined, a boolean otherwise.
\<close>

datatype js_result = Nullish | Boolean bool

fun truthy :: "js_result \<Rightarrow> bool" where
  "truthy Nullish = False"
| "truthy (Boolean b) = b"

text \<open>\<^verbatim>\<open>userSchema.methods.hasCompanyAccess\<close>, branch by branch.\<close>

definition hasCompanyAccess :: "user \<Rightarrow> oid \<Rightarrow> js_result" where
  "hasCompanyAccess this companyId =
     (if role this = SUPER_ADMIN then Boolean True
      else if role this = CA then
        Boolean (list_ex (\<lambda>c. c = companyId) (invitedCompanies this))
      else if role this \<in> set [COMPANY_ADMIN, COMPANY_USER] then
        (case company this of
           None \<Rightarrow> Nullish
         | Some c \<Rightarrow> Boolean (c = companyId))
      else Boolean False)"

text \<open>\<^verbatim>\<open>companySchema.methods.isCompanyAdmin\<close>: the representative or a listed admin.\<close>

definition company_isCompanyAdmin :: "company_doc \<Rightarrow> oid \<Rightarrow> bool" where
  "company_isCompanyAdmin this userId =
     (representative this = userId \<or> list_ex (\<lambda>admin. admin = userId) (companyAdmins this))"

text \<open>
  The Express middleware of \<^verbatim>\<open>middleware/rbac.js\<close>. A request carries the company id
  in its route parameters or in its body; the middleware either calls \<^verbatim>\<open>next()\<close> or
  answers with a status code. \<^verbatim>\<open>Company.findById\<close> is a read of the store that may
  throw (the \<^verbatim>\<open>catch\<close> answers 500) or find nothing; it is a parameter of the model.
\<close>

record request =
  params_companyId :: "string option"
  body_companyId :: "string option"
  req_user :: user

datatype response = Next | Status nat

datatype db_error = DbError string

definition request_companyId :: "request \<Rightarrow> string option" where
  "request_companyId req =
     (case params_companyId req of
        Some s \<Rightarrow> (if s \<noteq> [] then Some s else body_companyId req)
      | None \<Rightarrow> body_companyId req)"

definition rbac_hasCompanyAccess :: "request \<Rightarrow> response" where
  "rbac_hasCompanyAccess req =
     (case request_companyId req of
        None \<Rightarrow> Status 400
      | Some companyId \<Rightarrow>
          if companyId = [] then Status 400
          else if role (req_user req) = SUPER_ADMIN then Next
          else if truthy (hasCompanyAccess (req_user req) companyId) then Next
          else Status 403)"

definition isCompanyAdmin ::
  "(oid \<Rightarrow> db_error + company_doc option) \<Rightarrow> request \<Rightarrow> response" where
  "isCompanyAdmin findById req =
     (case request_companyId req of
        None \<Rightarrow> Status 400
      | Some companyId \<Rightarrow>
          if companyId = [] then Status 400
          else if role (req_user req) = SUPER_ADMIN then Next
          else if role (req_user req) = COMPANY_ADMIN
                  \<and> company (req_user req) = Some companyId then Next
          else
            (case findById companyId of
               Inl e \<Rightarrow> Status 500
             | Inr None \<Rightarrow> Status 404
             | Inr (Some c) \<Rightarrow>
                 if company_isCompanyAdmin c (user_id (req_user req)) then Next
                 else Status 403))"

section \<open>JSON values\<close>

text \<open>
  The analysis payload is schemaless (\<^verbatim>\<open>Mixed\<close> in the Analysis schema): a JSON tree. An
  object is the list of its own properties in enumeration order.
\<close>

datatype json =
    JNull
  | JBool bool
  | JNum real
  | JStr string
  | JArr "json list"
  | JObj "(string \<times> json) list"

text \<open>JavaScript truthiness, as \<^verbatim>\<open>!x\<close> and \<^verbatim>\<open>x || y\<close> read it.\<close>

fun json_truthy :: "json \<Rightarrow> bool" where
  "json_truthy JNull = False"
| "json_truthy (JBool b) = b"
| "json_truthy (JNum r) = (r \<noteq> 0)"
| "json_truthy (JStr s) = (s \<noteq> [])"
| "json_truthy (JArr xs) = True"
| "json_truthy (JObj kvs) = True"

text \<open>
  Reading a named property, \<^verbatim>\<open>x?.key\<close> or \<^verbatim>\<open>x[key]\<close> on a value that is not null:
  \<open>None\<close> is \<^verbatim>\<open>undefined\<close>. Only objects carry the property names the program reads.
\<close>

fun get_prop :: "json \<Rightarrow> string \<Rightarrow> json option" where
  "get_prop (JObj kvs) key = map_of kvs key"
| "get_prop v key = None"

text \<open>\<^verbatim>\<open>x || {}\<close> on a property that may be undefined.\<close>

definition or_empty :: "json option \<Rightarrow> json" where
  "or_empty v = (case v of None \<Rightarrow> JObj [] | Some x \<Rightarrow> if json_truthy x then x else JObj [])"

section \<open>The analysis ingestion pipeline\<close>

text \<open>
  The collections of \<^verbatim>\<open>models/Document.js\<close> and \<^verbatim>\<open>models/Analysis.js\<close>, with the fields
  the consumer reads or writes. Both schemas set \<^verbatim>\<open>timestamps: true\<close>, so Mongoose
  keeps \<^verbatim>\<open>createdAt\<close> and \<^verbatim>\<open>updatedAt\<close>; time is a number. The \<^verbatim>\<open>documents\<close> of an analysis
  are an array of subdocuments: Mongoose stores each with an \<^verbatim>\<open>_id\<close> of its own, next to
  the three fields the schema declares. The \<^verbatim>\<open>_id\<close> of the analysis record itself is not
  read by anything below and is left out.
\<close>

datatype doc_status = Uploaded | DocProcessing | Analyzed | DocFailed

record document =
  doc_id :: oid
  filename :: string
  originalName :: string
  fileType :: string
  doc_status :: doc_status
  doc_analysisId :: "string option"
  doc_updatedAt :: nat

record doc_snapshot =
  documentId :: oid
  snap_filename :: string
  snap_fileType :: string

record subdocument =
  subdoc_id :: oid
  subdoc :: doc_snapshot

datatype analysis_status = Processing | Completed | Failed

record analysis =
  analysisId :: string
  analysis_company :: "oid option"
  uploadedBy :: "oid option"
  documents :: "subdocument list"
  documentCount :: int
  totalPagesProcessed :: int
  consolidatedData :: json
  healthAnalysis :: json
  analysis_status :: analysis_status
  jobId :: "string option"
  analysis_error :: "string option"
  createdAt :: nat
  updatedAt :: nat

record store =
  analyses :: "analysis list"
  docs :: "document list"

text \<open>
  The message of the \<^verbatim>\<open>analysis:completed\<close> channel after \<^verbatim>\<open>JSON.parse\<close>. A field that
  the message leaves out is \<open>None\<close> (\<^verbatim>\<open>undefined\<close>); \<open>own_keys\<close> is \<^verbatim>\<open>Object.keys(data)\<close>,
  the keys of the message in its own order, known or not. A payload that \<^verbatim>\<open>JSON.parse\<close>
  rejects is \<open>Unparseable\<close>, with the message of the error thrown.
\<close>

record metadata =
  document_count :: "int option"
  total_pages_processed :: "int option"

record message =
  job_id :: "string option"
  analysis_id :: "string option"
  company_id :: "oid option"
  company_name :: "string option"
  analysis_data :: "json option"
  document_ids :: "oid list option"
  metadata :: "metadata option"
  own_keys :: "string list"

datatype payload = Unparseable string | Parsed message

datatype js_error = Error string | SyntaxError string | CastError string | DbFailure db_error

fun error_message :: "js_error \<Rightarrow> string" where
  "error_message (Error m) = m"
| "error_message (SyntaxError m) = m"
| "error_message (CastError v) = ''Cast to ObjectId failed for value '' @ v"
| "error_message (DbFailure (DbError m)) = m"

text \<open>
  Object ids. The \<^verbatim>\<open>_id\<close> of a document and the \<^verbatim>\<open>company\<close> of an analysis are ObjectIds;
  the message carries strings. Mongoose casts a string to an ObjectId before it queries
  or writes: a string of 24 hexadecimal digits (the test the route validators apply
  with \<^verbatim>\<open>isMongoId()\<close>) is cast, whatever the case of its letters, and any other string
  makes the call throw a CastError. A stored id is the lower-case string of its
  ObjectId.
\<close>

definition is_hex_digit :: "char \<Rightarrow> bool" where
  "is_hex_digit c = (c \<in> set ''0123456789abcdefABCDEF'')"

definition isMongoId :: "string \<Rightarrow> bool" where
  "isMongoId s = (length s = 24 \<and> list_all is_hex_digit s)"

definition lower_hex :: "char \<Rightarrow> char" where
  "lower_hex c =
     (if c = CHR ''A'' then CHR ''a'' else if c = CHR ''B'' then CHR ''b''
      else if c = CHR ''C'' then CHR ''c'' else if c = CHR ''D'' then CHR ''d''
      else if c = CHR ''E'' then CHR ''e'' else if c = CHR ''F'' then CHR ''f'' else c)"

definition cast_id :: "string \<Rightarrow> oid" where
  "cast_id s = map lower_hex s"

definition cast_failure :: "string list \<Rightarrow> js_error option" where
  "cast_failure ids =
     (case filter (\<lambda>i. \<not> isMongoId i) ids of [] \<Rightarrow> None | i # rest \<Rightarrow> Some (CastError i))"

text \<open>
  Apart from a failed cast, each of the three store calls may throw for a reason of the
  store's own (a lost connection); whether it does is the environment's choice. Each
  call is one write of the store, and a call that throws writes nothing. \<open>new_ids\<close>
  are the ObjectIds Mongoose generates while it handles the delivery, in order.
\<close>

record db_env =
  find_error :: "db_error option"
  upsert_error :: "db_error option"
  updateMany_error :: "db_error option"
  new_ids :: "nat \<Rightarrow> oid"

definition store_failure :: "db_error option \<Rightarrow> js_error option" where
  "store_failure f = (case f of None \<Rightarrow> None | Some e \<Rightarrow> Some (DbFailure e))"

text \<open>
  One entry per console call, carrying the values its template interpolates:
  \<open>LogReceived\<close> to \<open>LogDataType\<close> are lines 49 to 52, \<open>LogSaving\<close> and \<open>LogCompany\<close> lines
  72 and 73, \<open>LogSaved\<close> and \<open>LogSavedId\<close> lines 121 and 122, and \<open>LogError\<close> and
  \<open>LogStack\<close> the two \<^verbatim>\<open>console.error\<close> calls of the \<^verbatim>\<open>catch\<close> block.
\<close>

datatype log_entry =
    LogReceived "string option"
  | LogKeys "string list"
  | LogDataExists bool
  | LogDataType string
  | LogSaving string
  | LogCompany "string option" "string option"
  | LogSaved string
  | LogSavedId
  | LogError js_error
  | LogStack js_error

fun is_error_entry :: "log_entry \<Rightarrow> bool" where
  "is_error_entry (LogError e) = True"
| "is_error_entry (LogStack e) = True"
| "is_error_entry l = False"

text \<open>The text an error entry prints is the error's message (and its stack frames).\<close>

fun error_entry_text :: "log_entry \<Rightarrow> string" where
  "error_entry_text (LogError e) = error_message e"
| "error_entry_text (LogStack e) = error_message e"
| "error_entry_text l = []"

fun json_typeof :: "json option \<Rightarrow> string" where
  "json_typeof None = ''undefined''"
| "json_typeof (Some JNull) = ''object''"
| "json_typeof (Some (JBool b)) = ''boolean''"
| "json_typeof (Some (JNum r)) = ''number''"
| "json_typeof (Some (JStr s)) = ''string''"
| "json_typeof (Some (JArr xs)) = ''object''"
| "json_typeof (Some (JObj kvs)) = ''object''"

definition data_exists :: "json option \<Rightarrow> bool" where
  "data_exists v = (case v of None \<Rightarrow> False | Some x \<Rightarrow> json_truthy x)"

text \<open>
  The two checks of lines 55 to 60, in the source's order; what they let through is
  the analysis id and the payload.
\<close>

definition validate :: "message \<Rightarrow> js_error + (string \<times> json)" where
  "validate data =
     (case analysis_id data of
        None \<Rightarrow> Inl (Error ''Missing analysis_id in message'')
      | Some aid \<Rightarrow>
          if aid = [] then Inl (Error ''Missing analysis_id in message'')
          else
            (case analysis_data data of
               None \<Rightarrow> Inl (Error ''Missing analysis_data in message'')
             | Some ad \<Rightarrow>
                 if \<not> json_truthy ad then Inl (Error ''Missing analysis_data in message'')
                 else Inr (aid, ad)))"

text \<open>\<^verbatim>\<open>document_ids && document_ids.length > 0\<close>.\<close>

definition has_document_ids :: "message \<Rightarrow> bool" where
  "has_document_ids data =
     (case document_ids data of None \<Rightarrow> False | Some ids \<Rightarrow> length ids > 0)"

definition ids_of :: "message \<Rightarrow> oid list" where
  "ids_of data = (case document_ids data of None \<Rightarrow> [] | Some ids \<Rightarrow> ids)"

text \<open>
  \<^verbatim>\<open>Document.find({ _id: { $in: document_ids } })\<close>: the ids are cast, and the call throws
  when a cast fails or the store fails; otherwise it returns the documents whose id is
  among the cast ids. Then the snapshot of lines 79 to 83.
\<close>

definition find_failure :: "db_env \<Rightarrow> string list \<Rightarrow> js_error option" where
  "find_failure env ids =
     (case cast_failure ids of Some e \<Rightarrow> Some e | None \<Rightarrow> store_failure (find_error env))"

definition Document_find :: "document list \<Rightarrow> string list \<Rightarrow> document list" where
  "Document_find ds ids = filter (\<lambda>d. doc_id d \<in> set (map cast_id ids)) ds"

definition snapshot :: "document \<Rightarrow> doc_snapshot" where
  "snapshot doc =
     \<lparr>documentId = doc_id doc,
      snap_filename = (if originalName doc \<noteq> [] then originalName doc else filename doc),
      snap_fileType = fileType doc\<rparr>"

definition resolve_documents ::
  "db_env \<Rightarrow> document list \<Rightarrow> message \<Rightarrow> js_error + doc_snapshot list" where
  "resolve_documents env ds data =
     (if has_document_ids data then
        (case find_failure env (ids_of data) of
           Some e \<Rightarrow> Inl e
         | None \<Rightarrow> Inr (map snapshot (Document_find ds (ids_of data))))
      else Inr [])"

text \<open>The value of \<^verbatim>\<open>documents\<close> at line 93 when the find did not throw.\<close>

definition snaps_of :: "document list \<Rightarrow> message \<Rightarrow> doc_snapshot list" where
  "snaps_of ds data =
     (if has_document_ids data then map snapshot (Document_find ds (ids_of data)) else [])"

text \<open>
  The update document of lines 89 to 102. Mongoose wraps it in \<^verbatim>\<open>$set\<close>, leaves out a
  key whose value is \<^verbatim>\<open>undefined\<close>, casts \<^verbatim>\<open>company\<close> to an ObjectId and each element of
  \<^verbatim>\<open>documents\<close> to a subdocument with a newly generated \<^verbatim>\<open>_id\<close>, and (timestamps) sets
  \<^verbatim>\<open>updatedAt\<close>. Fields that the update does not name stay as they are.
\<close>

definition cast_snapshots :: "(nat \<Rightarrow> oid) \<Rightarrow> doc_snapshot list \<Rightarrow> subdocument list" where
  "cast_snapshots mint snaps =
     map (\<lambda>(i, sn). \<lparr>subdoc_id = mint i, subdoc = sn\<rparr>) (enumerate 0 snaps)"

definition upsert_failure :: "db_env \<Rightarrow> message \<Rightarrow> js_error option" where
  "upsert_failure env data =
     (case cast_failure (case company_id data of None \<Rightarrow> [] | Some c \<Rightarrow> [c]) of
        Some e \<Rightarrow> Some e
      | None \<Rightarrow> store_failure (upsert_error env))"

definition count_or :: "int option \<Rightarrow> int \<Rightarrow> int" where
  "count_or v d = (case v of None \<Rightarrow> d | Some n \<Rightarrow> if n \<noteq> 0 then n else d)"

definition meta_document_count :: "message \<Rightarrow> int option" where
  "meta_document_count data = (case metadata data of None \<Rightarrow> None | Some m \<Rightarrow> document_count m)"

definition meta_total_pages :: "message \<Rightarrow> int option" where
  "meta_total_pages data =
     (case metadata data of None \<Rightarrow> None | Some m \<Rightarrow> total_pages_processed m)"

definition apply_update ::
  "nat \<Rightarrow> (nat \<Rightarrow> oid) \<Rightarrow> message \<Rightarrow> string \<Rightarrow> json \<Rightarrow> doc_snapshot list
     \<Rightarrow> analysis \<Rightarrow> analysis" where
  "apply_update now mint data aid ad snaps r =
     r\<lparr>analysisId := aid,
       analysis_company :=
         (case company_id data of None \<Rightarrow> analysis_company r | Some c \<Rightarrow> Some (cast_id c)),
       jobId := (case job_id data of None \<Rightarrow> jobId r | Some j \<Rightarrow> Some j),
       documents := cast_snapshots mint snaps,
       documentCount := count_or (meta_document_count data) (int (length snaps)),
       totalPagesProcessed := count_or (meta_total_pages data) 0,
       consolidatedData := ad,
       healthAnalysis := or_empty (get_prop ad ''financial_health_analysis''),
       analysis_status := Completed,
       updatedAt := now\<rparr>"

text \<open>
  What an upsert inserts before the update is applied: the schema defaults
  (\<^verbatim>\<open>setDefaultsOnInsert\<close>) and the creation time. \<^verbatim>\<open>uploadedBy\<close> has no default, and
  validators (\<^verbatim>\<open>required\<close>) do not run on an update.
\<close>

definition new_analysis :: "nat \<Rightarrow> analysis" where
  "new_analysis now =
     \<lparr>analysisId = [],
      analysis_company = None,
      uploadedBy = None,
      documents = [],
      documentCount = 0,
      totalPagesProcessed = 0,
      consolidatedData = JObj [],
      healthAnalysis = JObj [],
      analysis_status = Processing,
      jobId = None,
      analysis_error = None,
      createdAt = now,
      updatedAt = now\<rparr>"

text \<open>
  \<^verbatim>\<open>Analysis.findOneAndUpdate({ analysisId }, update, { upsert: true, ... })\<close>: the first
  record with the id is updated in place; when there is none, one is inserted.
\<close>

fun findOneAndUpdate ::
  "string \<Rightarrow> (analysis \<Rightarrow> analysis) \<Rightarrow> analysis \<Rightarrow> analysis list \<Rightarrow> analysis list" where
  "findOneAndUpdate aid upd fresh [] = [upd fresh]"
| "findOneAndUpdate aid upd fresh (r # rs) =
     (if analysisId r = aid then upd r # rs else r # findOneAndUpdate aid upd fresh rs)"

text \<open>
  \<^verbatim>\<open>Document.updateMany({ _id: { $in: document_ids } }, { status, analysisId })\<close>: no
  upsert, so only documents that exist are written. The ids are those the find has
  cast already.
\<close>

definition updateMany :: "nat \<Rightarrow> string list \<Rightarrow> string \<Rightarrow> document list \<Rightarrow> document list" where
  "updateMany now ids aid ds =
     map (\<lambda>d. if doc_id d \<in> set (map cast_id ids)
               then d\<lparr>doc_status := Analyzed, doc_analysisId := Some aid, doc_updatedAt := now\<rparr>
               else d) ds"

text \<open>
  The result of handling one message: the store it leaves, the store after each
  committed write in order, and the log. \<open>caught\<close> is the \<^verbatim>\<open>catch\<close> block: it logs the
  error and returns, so the handler never throws.
\<close>

record outcome =
  out_store :: store
  out_writes :: "store list"
  out_log :: "log_entry list"

definition caught :: "store \<Rightarrow> store list \<Rightarrow> log_entry list \<Rightarrow> js_error \<Rightarrow> outcome" where
  "caught s ws lg e = \<lparr>out_store = s, out_writes = ws, out_log = lg @ [LogError e, LogStack e]\<rparr>"

definition handleAnalysisMessage :: "db_env \<Rightarrow> nat \<Rightarrow> payload \<Rightarrow> store \<Rightarrow> outcome" where
  "handleAnalysisMessage env now message s =
     (case message of
        Unparseable m \<Rightarrow> caught s [] [] (SyntaxError m)
      | Parsed data \<Rightarrow>
          (let log1 = [LogReceived (analysis_id data), LogKeys (own_keys data),
                       LogDataExists (data_exists (analysis_data data)),
                       LogDataType (json_typeof (analysis_data data))]
           in case validate data of
                Inl e \<Rightarrow> caught s [] log1 e
              | Inr (aid, ad) \<Rightarrow>
                  (let log2 = log1 @ [LogSaving aid, LogCompany (company_name data) (company_id data)]
                   in case resolve_documents env (docs s) data of
                        Inl e \<Rightarrow> caught s [] log2 e
                      | Inr snaps \<Rightarrow>
                          (case upsert_failure env data of
                             Some e \<Rightarrow> caught s [] log2 e
                           | None \<Rightarrow>
                               (let s1 = s\<lparr>analyses :=
                                            findOneAndUpdate aid
                                              (apply_update now (new_ids env) data aid ad snaps)
                                              (new_analysis now) (analyses s)\<rparr>;
                                    log3 = log2 @ [LogSaved aid, LogSavedId]
                                in if has_document_ids data then
                                     (case updateMany_error env of
                                        Some e \<Rightarrow> caught s1 [s1] log2 (DbFailure e)
                                      | None \<Rightarrow>
                                          (let s2 = s1\<lparr>docs := updateMany now (ids_of data) aid (docs s1)\<rparr>
                                           in \<lparr>out_store = s2, out_writes = [s1, s2], out_log = log3\<rparr>))
                                   else \<lparr>out_store = s1, out_writes = [s1], out_log = log3\<rparr>)))))"

text \<open>
  The subscription: each delivery runs the handler on the store the previous one left.
  A delivery is the environment's choices for it, its arrival time and its payload.
\<close>

fun consume :: "(db_env \<times> nat \<times> payload) list \<Rightarrow> store \<Rightarrow> outcome" where
  "consume [] s = \<lparr>out_store = s, out_writes = [], out_log = []\<rparr>"
| "consume ((env, now, message) # rest) s =
     (let o1 = handleAnalysisMessage env now message s;
          o2 = consume rest (out_store o1)
      in \<lparr>out_store = out_store o2,
          out_writes = out_writes o1 @ out_writes o2,
          out_log = out_log o1 @ out_log o2\<rparr>)"

text \<open>\<^verbatim>\<open>Analysis.findOne({ analysisId })\<close>, the read the controllers use.\<close>

definition Analysis_findOne :: "string \<Rightarrow> analysis list \<Rightarrow> analysis option" where
  "Analysis_findOne aid rs = find (\<lambda>r. analysisId r = aid) rs"

text \<open>
  The ordering invariant of the two collections: a document in status analyzed carries
  the id of an analysis record that exists.
\<close>

definition refs_resolved :: "store \<Rightarrow> bool" where
  "refs_resolved s =
     list_all (\<lambda>d. doc_status d = Analyzed \<longrightarrow>
                 (case doc_analysisId d of
                    None \<Rightarrow> False
                  | Some a \<Rightarrow> list_ex (\<lambda>r. analysisId r = a) (analyses s)))
       (docs s)"

section \<open>The comparison engine\<close>



































section \<open>Concrete data\<close>

text \<open>
  A company O1 whose representative U1 is not in its list of admins, which holds U3;
  U2 and U3 are company admins, U2 of O1 and U3 of another company; U4 is a CA.
\<close>

definition org1 :: company_doc where
  "org1 = \<lparr>company_oid = ''O1'', representative = ''U1'', companyAdmins = [''U3''], invitedCAs = []\<rparr>"

definition org_store :: "oid \<Rightarrow> db_error + company_doc option" where
  "org_store cid = (if cid = ''O1'' then Inr (Some org1) else Inr None)"

definition user0 :: user where
  "user0 = \<lparr>user_id = ''U0'', role = SUPER_ADMIN, company = None, invitedCompanies = []\<rparr>"

definition user1 :: user where
  "user1 = \<lparr>user_id = ''U1'', role = COMPANY_USER, company = Some ''O1'', invitedCompanies = []\<rparr>"

definition user2 :: user where
  "user2 = \<lparr>user_id = ''U2'', role = COMPANY_ADMIN, company = Some ''O1'', invitedCompanies = []\<rparr>"

definition user3 :: user where
  "user3 = \<lparr>user_id = ''U3'', role = COMPANY_ADMIN, company = Some ''O2'', invitedCompanies = []\<rparr>"

definition user4 :: user where
  "user4 = \<lparr>user_id = ''U4'', role = CA, company = None, invitedCompanies = [''O1'', ''O3'']\<rparr>"

definition request_for :: "user \<Rightarrow> string \<Rightarrow> request" where
  "request_for u cid = \<lparr>params_companyId = Some cid, body_companyId = None, req_user = u\<rparr>"

text \<open>
  Object ids of two documents and a company. A store that holds the first document and
  no analysis, and one that also holds a record of the analysis A1 uploaded by U4.
  \<open>message1\<close> is for the analysis A1 and names the first document and the second, which
  does not exist; \<open>message2\<close> has an analysis id and no payload; \<open>message3\<close> is
  \<open>message1\<close> with the malformed id D2 in place of the second; \<open>message4\<close> is for the
  analysis A1 again, with another payload and neither company nor job id. In \<open>env_ok\<close>
  and \<open>env_ok2\<close> no store call fails, and they generate different ids; in \<open>env_down\<close>
  the upsert fails.
\<close>

definition doc_id1 :: oid where
  "doc_id1 = ''d10000000000000000000000''"

definition doc_id2 :: oid where
  "doc_id2 = ''d20000000000000000000000''"

definition company_id1 :: oid where
  "company_id1 = ''c10000000000000000000000''"

definition doc1 :: document where
  "doc1 = \<lparr>doc_id = doc_id1, filename = ''f1.pdf'', originalName = ''report.pdf'',
            fileType = ''pdf'', doc_status = Uploaded, doc_analysisId = None, doc_updatedAt = 0\<rparr>"

definition store1 :: store where
  "store1 = \<lparr>analyses = [], docs = [doc1]\<rparr>"

definition payload1 :: json where
  "payload1 = JObj [(''financial_health_analysis'', JObj [(''confidence_score'', JNum 1)])]"


definition message1 :: message where
  "message1 = \<lparr>job_id = Some ''J1'', analysis_id = Some ''A1'', company_id = Some company_id1,
                company_name = Some ''Acme'', analysis_data = Some payload1,
                document_ids = Some [doc_id1, doc_id2],
                metadata = Some \<lparr>document_count = Some 2, total_pages_processed = Some 10\<rparr>,
                own_keys = [''job_id'', ''analysis_id'', ''company_id'', ''company_name'',
                            ''analysis_data'', ''document_ids'', ''metadata'']\<rparr>"

definition message2 :: message where
  "message2 = \<lparr>job_id = None, analysis_id = Some ''A1'', company_id = None,
                company_name = None, analysis_data = None,
                document_ids = Some [doc_id1], metadata = None,
                own_keys = [''document_ids'', ''analysis_id'']\<rparr>"

definition message3 :: message where
  "message3 = message1\<lparr>document_ids := Some [doc_id1, ''D2'']\<rparr>"


definition store2 :: store where
  "store2 =
     \<lparr>analyses = [(new_analysis 5)\<lparr>analysisId := ''A1'', uploadedBy := Some ''U4''\<rparr>],
      docs = [doc1]\<rparr>"

definition env_ok :: db_env where
  "env_ok = \<lparr>find_error = None, upsert_error = None, updateMany_error = None,
             new_ids = (\<lambda>i. ''a00000000000000000000000'')\<rparr>"

definition env_ok2 :: db_env where
  "env_ok2 = \<lparr>find_error = None, upsert_error = None, updateMany_error = None,
              new_ids = (\<lambda>i. ''b00000000000000000000000'')\<rparr>"

definition env_down :: db_env where
  "env_down = \<lparr>find_error = None, upsert_error = Some (DbError ''down''), updateMany_error = None,
               new_ids = (\<lambda>i. ''a00000000000000000000000'')\<rparr>"








section \<open>Properties of the access policy\<close>

lemma list_ex_eq_mem: "list_ex (\<lambda>c. c = x) xs \<longleftrightarrow> x \<in> set xs"
  by (induction xs) auto

text \<open>
  C1. Access to a company: a super admin always has it; a CA has it exactly when the
  company is among its invited companies; a company admin or company user has it
  exactly when the company is its own.
\<close>

theorem hasCompanyAccess_by_role:
  "(role a = SUPER_ADMIN \<longrightarrow> hasCompanyAccess a orgId = Boolean True) \<and>
   (role a = CA \<longrightarrow>
      (hasCompanyAccess a orgId = Boolean True \<longleftrightarrow> orgId \<in> set (invitedCompanies a))) \<and>
   (role a = COMPANY_ADMIN \<or> role a = COMPANY_USER \<longrightarrow>
      (hasCompanyAccess a orgId = Boolean True \<longleftrightarrow> company a = Some orgId))"
  by (auto simp: hasCompanyAccess_def list_ex_eq_mem split: option.splits)

theorem hasCompanyAccess_by_role_witness:
  "role user0 = SUPER_ADMIN \<and> hasCompanyAccess user0 ''O1'' = Boolean True \<and>
   role user4 = CA \<and> ''O3'' \<in> set (invitedCompanies user4) \<and>
   hasCompanyAccess user4 ''O3'' = Boolean True \<and>
   ''O2'' \<notin> set (invitedCompanies user4) \<and> hasCompanyAccess user4 ''O2'' \<noteq> Boolean True \<and>
   role user2 = COMPANY_ADMIN \<and> company user2 = Some ''O1'' \<and>
   hasCompanyAccess user2 ''O1'' = Boolean True \<and>
   role user1 = COMPANY_USER \<and> company user1 \<noteq> Some ''O2'' \<and>
   hasCompanyAccess user1 ''O2'' \<noteq> Boolean True"
  using hasCompanyAccess_by_role [of user0 "''O1''"]
    hasCompanyAccess_by_role [of user4 "''O3''"]
    hasCompanyAccess_by_role [of user4 "''O2''"]
    hasCompanyAccess_by_role [of user2 "''O1''"]
    hasCompanyAccess_by_role [of user1 "''O2''"]
  by (simp add: user0_def user1_def user2_def user4_def)

lemma request_companyId_for: "request_companyId (request_for u cid) = (if cid \<noteq> [] then Some cid else None)"
  by (simp add: request_companyId_def request_for_def)

text \<open>
  C2, as the spec states it: for a company admin, when the role check (the user's own
  company is the requested one) and the membership check against the company document
  disagree, the request is denied. The middleware does the opposite in both
  directions. U2 passes the role check for O1 and is neither representative nor listed
  admin of O1; U3 is a listed admin of O1 and its own company is O2. Both are let
  through.
\<close>

theorem isCompanyAdmin_mismatch_counterexample:
  "role user2 = COMPANY_ADMIN \<and> company user2 = Some ''O1'' \<and>
   \<not> company_isCompanyAdmin org1 (user_id user2) \<and>
   isCompanyAdmin org_store (request_for user2 ''O1'') = Next \<and>
   role user3 = COMPANY_ADMIN \<and> company user3 \<noteq> Some ''O1'' \<and>
   company_isCompanyAdmin org1 (user_id user3) \<and>
   isCompanyAdmin org_store (request_for user3 ''O1'') = Next"
  by (simp add: isCompanyAdmin_def request_companyId_def company_isCompanyAdmin_def
      user2_def user3_def org1_def org_store_def request_for_def)

text \<open>
  C2, amended: for a company admin asking for an existing company, the middleware lets
  the request through exactly when the role check or the membership check passes, and
  answers 403 when both fail. Either check is enough, so when the two disagree the
  request is let through; no other outcome (no integrity error) exists.
\<close>

theorem isCompanyAdmin_either_check:
  assumes "role (req_user req) = COMPANY_ADMIN"
    and "request_companyId req = Some cid" and "cid \<noteq> []"
    and "findById cid = Inr (Some c)"
  shows "isCompanyAdmin findById req =
           (if company (req_user req) = Some cid
               \<or> company_isCompanyAdmin c (user_id (req_user req))
            then Next else Status 403)"
  using assms by (simp add: isCompanyAdmin_def)

theorem isCompanyAdmin_either_check_witness:
  "role (req_user (request_for user2 ''O1'')) = COMPANY_ADMIN \<and>
   request_companyId (request_for user2 ''O1'') = Some ''O1'' \<and>
   org_store ''O1'' = Inr (Some org1) \<and>
   company user2 = Some ''O1'' \<and> \<not> company_isCompanyAdmin org1 (user_id user2) \<and>
   isCompanyAdmin org_store (request_for user2 ''O1'') = Next"
proof -
  have r: "role (req_user (request_for user2 ''O1'')) = COMPANY_ADMIN"
    by (simp add: request_for_def user2_def)
  have i: "request_companyId (request_for user2 ''O1'') = Some ''O1''"
    by (simp add: request_companyId_for)
  have n: "''O1'' \<noteq> ([]::string)" by simp
  have f: "org_store ''O1'' = Inr (Some org1)" by (simp add: org_store_def)
  have m: "\<not> company_isCompanyAdmin org1 (user_id user2)"
    by (simp add: company_isCompanyAdmin_def org1_def user2_def)
  have c: "company (req_user (request_for user2 ''O1'')) = Some ''O1''"
    by (simp add: request_for_def user2_def)
  from isCompanyAdmin_either_check [where findById = org_store, OF r i n f] c
  have "isCompanyAdmin org_store (request_for user2 ''O1'') = Next" by simp
  with r i f m c show ?thesis by (simp add: request_for_def)
qed

text \<open>
  C9. The representative of a company passes the company-admin check for it, whether
  or not the company's list of admins names it.
\<close>

theorem representative_is_company_admin:
  assumes "request_companyId req = Some cid" and "cid \<noteq> []"
    and "findById cid = Inr (Some c)"
    and "user_id (req_user req) = representative c"
  shows "company_isCompanyAdmin c (representative c) \<and> isCompanyAdmin findById req = Next"
  using assms by (simp add: isCompanyAdmin_def company_isCompanyAdmin_def)

theorem representative_is_company_admin_witness:
  "request_companyId (request_for user1 ''O1'') = Some ''O1'' \<and>
   org_store ''O1'' = Inr (Some org1) \<and>
   user_id (req_user (request_for user1 ''O1'')) = representative org1 \<and>
   representative org1 \<notin> set (companyAdmins org1) \<and>
   company_isCompanyAdmin org1 (representative org1) \<and>
   isCompanyAdmin org_store (request_for user1 ''O1'') = Next"
proof -
  have i: "request_companyId (request_for user1 ''O1'') = Some ''O1''"
    by (simp add: request_companyId_for)
  have n: "''O1'' \<noteq> ([]::string)" by simp
  have f: "org_store ''O1'' = Inr (Some org1)" by (simp add: org_store_def)
  have u: "user_id (req_user (request_for user1 ''O1'')) = representative org1"
    by (simp add: request_for_def user1_def org1_def)
  have a: "representative org1 \<notin> set (companyAdmins org1)" by (simp add: org1_def)
  from representative_is_company_admin [where findById = org_store, OF i n f u] i f u a show ?thesis by simp
qed

section \<open>Properties of the ingestion pipeline\<close>

lemma handle_invalid:
  assumes "validate data = Inl e"
  shows "handleAnalysisMessage env now (Parsed data) s =
    \<lparr>out_store = s, out_writes = [],
     out_log = [LogReceived (analysis_id data), LogKeys (own_keys data),
                LogDataExists (data_exists (analysis_data data)),
                LogDataType (json_typeof (analysis_data data)), LogError e, LogStack e]\<rparr>"
  using assms by (simp add: handleAnalysisMessage_def caught_def)

lemma validate_missing:
  assumes "analysis_id data = None \<or> analysis_id data = Some [] \<or> \<not> data_exists (analysis_data data)"
  shows "validate data =
     Inl (Error (if analysis_id data = None \<or> analysis_id data = Some []
                 then ''Missing analysis_id in message''
                 else ''Missing analysis_data in message''))"
  using assms by (auto simp: validate_def data_exists_def split: option.splits)

lemma resolve_ok:
  "find_failure env (ids_of data) = None \<Longrightarrow>
     resolve_documents env ds data = Inr (snaps_of ds data)"
  by (simp add: resolve_documents_def snaps_of_def)

lemma resolve_cast_error:
  assumes "has_document_ids data" and "cast_failure (ids_of data) = Some e"
  shows "resolve_documents env ds data = Inl e"
  using assms by (simp add: resolve_documents_def find_failure_def)

lemma handle_analyses:
  assumes "validate data = Inr (aid, ad)" and "find_failure env (ids_of data) = None"
    and "upsert_failure env data = None"
  shows "analyses (out_store (handleAnalysisMessage env now (Parsed data) s)) =
           findOneAndUpdate aid (apply_update now (new_ids env) data aid ad (snaps_of (docs s) data))
             (new_analysis now) (analyses s)"
  using assms
  by (simp add: handleAnalysisMessage_def resolve_ok caught_def Let_def split: option.splits)

lemma handle_docs:
  assumes "validate data = Inr (aid, ad)" and "find_failure env (ids_of data) = None"
    and "upsert_failure env data = None" and "updateMany_error env = None"
  shows "docs (out_store (handleAnalysisMessage env now (Parsed data) s)) =
           (if has_document_ids data then updateMany now (ids_of data) aid (docs s) else docs s)"
  using assms
  by (simp add: handleAnalysisMessage_def resolve_ok caught_def Let_def split: option.splits)

lemma handle_log_ok:
  assumes "validate data = Inr (aid, ad)" and "find_failure env (ids_of data) = None"
    and "upsert_failure env data = None" and "updateMany_error env = None"
  shows "filter is_error_entry (out_log (handleAnalysisMessage env now (Parsed data) s)) = []"
  using assms
  by (simp add: handleAnalysisMessage_def resolve_ok caught_def Let_def split: option.splits)

lemma handle_cast_error:
  assumes "validate data = Inr (aid, ad)" and "has_document_ids data"
    and "cast_failure (ids_of data) = Some e"
  shows "handleAnalysisMessage env now (Parsed data) s =
           caught s []
             [LogReceived (analysis_id data), LogKeys (own_keys data),
              LogDataExists (data_exists (analysis_data data)),
              LogDataType (json_typeof (analysis_data data)),
              LogSaving aid, LogCompany (company_name data) (company_id data)] e"
  using assms(1) resolve_cast_error [OF assms(2,3)]
  by (simp add: handleAnalysisMessage_def)

lemma apply_update_id [simp]: "analysisId (apply_update now mint data aid ad snaps r) = aid"
  by (simp add: apply_update_def)

lemma apply_update_uploadedBy [simp]:
  "uploadedBy (apply_update now mint data aid ad snaps r) = uploadedBy r"
  by (simp add: apply_update_def)

lemma subdoc_cast_snapshots [simp]: "map subdoc (cast_snapshots mint snaps) = snaps"
proof -
  have "map subdoc (cast_snapshots mint snaps) = map snd (enumerate 0 snaps)"
    by (simp add: cast_snapshots_def comp_def case_prod_unfold)
  then show ?thesis by simp
qed


lemma findOneAndUpdate_uploadedBy:
  assumes "\<And>r. uploadedBy (upd r) = uploadedBy r"
  shows "map uploadedBy (findOneAndUpdate aid upd fresh rs) =
           map uploadedBy rs @
             (if list_ex (\<lambda>r. analysisId r = aid) rs then [] else [uploadedBy fresh])"
  using assms by (induction rs) auto

lemma findOneAndUpdate_ids:
  assumes "\<And>r. analysisId (upd r) = aid"
  shows "map analysisId (findOneAndUpdate aid upd fresh rs) =
           map analysisId rs @ (if list_ex (\<lambda>r. analysisId r = aid) rs then [] else [aid])"
  using assms by (induction rs) auto

lemma findOneAndUpdate_findOne:
  assumes "\<And>r. analysisId (upd r) = aid"
  shows "Analysis_findOne aid (findOneAndUpdate aid upd fresh rs) =
           Some (upd (case Analysis_findOne aid rs of None \<Rightarrow> fresh | Some r \<Rightarrow> r))"
  using assms by (induction rs) (auto simp: Analysis_findOne_def)





text \<open>
  C5, as the spec states it: a message without analysis id or without payload is
  logged as a failure together with its analysis id. The failure entries are the two
  \<^verbatim>\<open>console.error\<close> calls of the \<^verbatim>\<open>catch\<close> block, and they print the error alone. For a
  message with the analysis id A1 and no payload, no failure entry mentions A1.
\<close>

theorem failure_log_without_id_counterexample:
  "analysis_id message2 = Some ''A1'' \<and>
   filter is_error_entry (out_log (handleAnalysisMessage env_ok 10 (Parsed message2) store1)) =
     [LogError (Error ''Missing analysis_data in message''),
      LogStack (Error ''Missing analysis_data in message'')] \<and>
   \<not> list_ex (\<lambda>l. sublist ''A1'' (error_entry_text l))
       (filter is_error_entry (out_log (handleAnalysisMessage env_ok 10 (Parsed message2) store1)))"
proof -
  have v: "validate message2 = Inl (Error ''Missing analysis_data in message'')"
    by (simp add: validate_def message2_def)
  have n: "\<not> sublist ''A1'' ''Missing analysis_data in message''"
    by (simp add: sublist_code)
  show ?thesis
    by (simp add: handle_invalid [OF v] n) (simp add: message2_def)
qed

text \<open>
  C5, amended: a message without analysis id or without payload writes nothing to
  either collection; the handler logs the receipt line (the only entry that carries
  the analysis id), then the error, whose text names the missing field, and returns,
  so the subscription goes on with the next message from the same store.
\<close>

theorem missing_field_is_dropped:
  assumes "analysis_id data = None \<or> analysis_id data = Some []
             \<or> \<not> data_exists (analysis_data data)"
  shows "handleAnalysisMessage env now (Parsed data) s =
           \<lparr>out_store = s, out_writes = [],
            out_log =
              [LogReceived (analysis_id data), LogKeys (own_keys data),
               LogDataExists (data_exists (analysis_data data)),
               LogDataType (json_typeof (analysis_data data)),
               LogError (Error (if analysis_id data = None \<or> analysis_id data = Some []
                                then ''Missing analysis_id in message''
                                else ''Missing analysis_data in message'')),
               LogStack (Error (if analysis_id data = None \<or> analysis_id data = Some []
                                then ''Missing analysis_id in message''
                                else ''Missing analysis_data in message''))]\<rparr>
         \<and> out_store (consume ((env, now, Parsed data) # rest) s) = out_store (consume rest s)
         \<and> out_writes (consume ((env, now, Parsed data) # rest) s) = out_writes (consume rest s)"
proof -
  have h: "handleAnalysisMessage env now (Parsed data) s =
           \<lparr>out_store = s, out_writes = [],
            out_log =
              [LogReceived (analysis_id data), LogKeys (own_keys data),
               LogDataExists (data_exists (analysis_data data)),
               LogDataType (json_typeof (analysis_data data)),
               LogError (Error (if analysis_id data = None \<or> analysis_id data = Some []
                                then ''Missing analysis_id in message''
                                else ''Missing analysis_data in message'')),
               LogStack (Error (if analysis_id data = None \<or> analysis_id data = Some []
                                then ''Missing analysis_id in message''
                                else ''Missing analysis_data in message''))]\<rparr>"
    by (rule handle_invalid [OF validate_missing [OF assms]])
  have "out_store (handleAnalysisMessage env now (Parsed data) s) = s"
    and "out_writes (handleAnalysisMessage env now (Parsed data) s) = []"
    by (simp_all add: h)
  then have "out_store (consume ((env, now, Parsed data) # rest) s) = out_store (consume rest s)"
    and "out_writes (consume ((env, now, Parsed data) # rest) s) = out_writes (consume rest s)"
    by (simp_all add: Let_def)
  with h show ?thesis by blast
qed

theorem missing_field_is_dropped_witness:
  "analysis_id message2 = Some ''A1'' \<and> \<not> data_exists (analysis_data message2) \<and>
   out_store (handleAnalysisMessage env_ok 10 (Parsed message2) store1) = store1 \<and>
   out_writes (handleAnalysisMessage env_ok 10 (Parsed message2) store1) = [] \<and>
   out_log (handleAnalysisMessage env_ok 10 (Parsed message2) store1) =
     [LogReceived (Some ''A1''), LogKeys [''document_ids'', ''analysis_id''],
      LogDataExists False, LogDataType ''undefined'',
      LogError (Error ''Missing analysis_data in message''),
      LogStack (Error ''Missing analysis_data in message'')] \<and>
   out_store (consume [(env_ok, 10, Parsed message2), (env_ok, 20, Parsed message1)] store1) =
     out_store (consume [(env_ok, 20, Parsed message1)] store1)"
proof -
  have a: "analysis_id message2 = None \<or> analysis_id message2 = Some []
             \<or> \<not> data_exists (analysis_data message2)"
    by (simp add: message2_def data_exists_def)
  have k: "own_keys message2 = [''document_ids'', ''analysis_id'']"
    by (simp add: message2_def)
  have f: "analysis_id message2 = Some ''A1''" "analysis_data message2 = None"
    by (simp_all add: message2_def)
  note m = missing_field_is_dropped [OF a, of env_ok 10 store1 "[(env_ok, 20, Parsed message1)]"]
  from m have h: "handleAnalysisMessage env_ok 10 (Parsed message2) store1 =
      \<lparr>out_store = store1, out_writes = [],
       out_log =
         [LogReceived (Some ''A1''), LogKeys [''document_ids'', ''analysis_id''],
          LogDataExists False, LogDataType ''undefined'',
          LogError (Error ''Missing analysis_data in message''),
          LogStack (Error ''Missing analysis_data in message'')]\<rparr>"
    by (simp add: k f data_exists_def del: consume.simps)
  from m have c: "out_store (consume [(env_ok, 10, Parsed message2), (env_ok, 20, Parsed message1)] store1) =
     out_store (consume [(env_ok, 20, Parsed message1)] store1)"
    by blast
  show ?thesis by (simp add: h c f data_exists_def del: consume.simps)
qed

lemma validate_message1: "validate message1 = Inr (''A1'', payload1)"
  by (simp add: validate_def message1_def payload1_def)


lemma mongo_ids: "isMongoId doc_id1" "isMongoId doc_id2" "isMongoId company_id1"
  by (simp_all add: isMongoId_def is_hex_digit_def doc_id1_def doc_id2_def company_id1_def)

lemma cast_ids: "cast_id doc_id1 = doc_id1" "cast_id doc_id2 = doc_id2"
    "cast_id company_id1 = company_id1"
  by (simp_all add: cast_id_def lower_hex_def doc_id1_def doc_id2_def company_id1_def)

lemma ids_message1: "ids_of message1 = [doc_id1, doc_id2]" "has_document_ids message1"
  by (simp_all add: ids_of_def has_document_ids_def message1_def)


lemma find_message1:
  "find_failure env_ok (ids_of message1) = None" "find_failure env_ok2 (ids_of message1) = None"
  "find_failure env_down (ids_of message1) = None"
  by (simp_all add: find_failure_def cast_failure_def store_failure_def ids_message1 mongo_ids
      env_ok_def env_ok2_def env_down_def)


lemma upsert_message1:
  "upsert_failure env_ok message1 = None" "upsert_failure env_ok2 message1 = None"
  by (simp_all add: upsert_failure_def cast_failure_def store_failure_def mongo_ids
      env_ok_def env_ok2_def message1_def)


lemma updateMany_ok: "updateMany_error env_ok = None" "updateMany_error env_ok2 = None"
  by (simp_all add: env_ok_def env_ok2_def)


lemma handle_uploadedBy_frame:
  "\<exists>k\<le>1. map uploadedBy (analyses (out_store (handleAnalysisMessage env now message s))) =
           map uploadedBy (analyses s) @ replicate k None"
proof (cases message)
  case (Unparseable m)
  then show ?thesis by (simp add: handleAnalysisMessage_def caught_def)
next
  case (Parsed data)
  show ?thesis
  proof (cases "validate data")
    case (Inl e)
    with Parsed show ?thesis by (simp add: handleAnalysisMessage_def caught_def)
  next
    case (Inr p)
    obtain aid ad where p: "p = (aid, ad)" by (cases p)
    show ?thesis
    proof (cases "resolve_documents env (docs s) data")
      case (Inl e)
      with Parsed Inr p show ?thesis by (simp add: handleAnalysisMessage_def caught_def)
    next
      case snaps: (Inr snaps)
      show ?thesis
      proof (cases "upsert_failure env data")
        case (Some e)
        with Parsed Inr p snaps show ?thesis by (simp add: handleAnalysisMessage_def caught_def)
      next
        case None
        have "analyses (out_store (handleAnalysisMessage env now message s)) =
            findOneAndUpdate aid (apply_update now (new_ids env) data aid ad snaps)
              (new_analysis now) (analyses s)"
          using Parsed Inr p snaps None
          by (simp add: handleAnalysisMessage_def caught_def Let_def split: option.splits)
        then have "map uploadedBy (analyses (out_store (handleAnalysisMessage env now message s))) =
            map uploadedBy (analyses s) @
              replicate (if list_ex (\<lambda>r. analysisId r = aid) (analyses s) then 0 else 1) None"
          by (simp add: findOneAndUpdate_uploadedBy new_analysis_def)
        then show ?thesis
          by (intro exI [of _ "if list_ex (\<lambda>r. analysisId r = aid) (analyses s) then 0 else 1"]) simp
      qed
    qed
  qed
qed

text \<open>
  C10. The upsert never writes \<^verbatim>\<open>uploadedBy\<close>: a record it inserts has none, and a
  record it updates keeps the one it had. Whatever the message and whatever fails, the
  handler changes no \<^verbatim>\<open>uploadedBy\<close> and adds at most one record, without one.
\<close>

theorem upsert_leaves_uploadedBy:
  "(validate data = Inr (aid, ad) \<and> find_failure env (ids_of data) = None
      \<and> upsert_failure env data = None \<longrightarrow>
      map uploadedBy (analyses (out_store (handleAnalysisMessage env now (Parsed data) s))) =
        map uploadedBy (analyses s) @
          (if list_ex (\<lambda>r. analysisId r = aid) (analyses s) then [] else [None])
      \<and> map analysisId (analyses (out_store (handleAnalysisMessage env now (Parsed data) s))) =
        map analysisId (analyses s) @
          (if list_ex (\<lambda>r. analysisId r = aid) (analyses s) then [] else [aid]))
   \<and> (\<exists>k\<le>1. map uploadedBy (analyses (out_store (handleAnalysisMessage env now message s))) =
           map uploadedBy (analyses s) @ replicate k None)"
proof -
  have "validate data = Inr (aid, ad) \<and> find_failure env (ids_of data) = None
      \<and> upsert_failure env data = None \<longrightarrow>
      map uploadedBy (analyses (out_store (handleAnalysisMessage env now (Parsed data) s))) =
        map uploadedBy (analyses s) @
          (if list_ex (\<lambda>r. analysisId r = aid) (analyses s) then [] else [None])
      \<and> map analysisId (analyses (out_store (handleAnalysisMessage env now (Parsed data) s))) =
        map analysisId (analyses s) @
          (if list_ex (\<lambda>r. analysisId r = aid) (analyses s) then [] else [aid])"
    by (simp add: handle_analyses findOneAndUpdate_uploadedBy findOneAndUpdate_ids new_analysis_def)
  with handle_uploadedBy_frame [of env now message s] show ?thesis by blast
qed

theorem upsert_leaves_uploadedBy_witness:
  "validate message1 = Inr (''A1'', payload1) \<and> find_failure env_ok (ids_of message1) = None \<and>
   upsert_failure env_ok message1 = None \<and>
   map uploadedBy (analyses store1) = [] \<and>
   map uploadedBy (analyses (out_store (handleAnalysisMessage env_ok 10 (Parsed message1) store1))) =
     [None] \<and>
   map uploadedBy (analyses store2) = [Some ''U4''] \<and>
   map uploadedBy (analyses (out_store (handleAnalysisMessage env_ok 10 (Parsed message1) store2))) =
     [Some ''U4'']"
proof -
  note e = find_message1(1) upsert_message1(1)
  note u1 = upsert_leaves_uploadedBy [of message1 "''A1''" payload1 env_ok 10 store1]
  note u2 = upsert_leaves_uploadedBy [of message1 "''A1''" payload1 env_ok 10 store2]
  have s1: "analyses store1 = []" by (simp add: store1_def)
  have s2: "map uploadedBy (analyses store2) = [Some ''U4'']"
    "list_ex (\<lambda>r. analysisId r = ''A1'') (analyses store2)"
    by (simp_all add: store2_def)
  from u1 have a: "map uploadedBy (analyses (out_store (handleAnalysisMessage env_ok 10 (Parsed message1) store1))) = [None]"
    by (simp add: s1 validate_message1 e)
  from u2 have b: "map uploadedBy (analyses (out_store (handleAnalysisMessage env_ok 10 (Parsed message1) store2))) = [Some ''U4'']"
    by (simp add: s2 validate_message1 e)
  show ?thesis by (simp add: validate_message1 e s1 s2 a b)
qed

lemma snapshot_id [simp]: "documentId (snapshot d) = doc_id d"
  by (simp add: snapshot_def)

lemma updateMany_ids: "map doc_id (updateMany now ids aid ds) = map doc_id ds"
  by (simp add: updateMany_def comp_def if_distrib [of doc_id] cong: if_cong)

lemma filter_Cons_member:
  assumes "filter P xs = y # ys"
  shows "y \<in> set xs \<and> P y"
proof -
  have "y \<in> set (filter P xs)" by (simp add: assms)
  then show ?thesis by simp
qed

lemma cast_failure_None_iff: "cast_failure ids = None \<longleftrightarrow> list_all isMongoId ids"
proof (cases "filter (\<lambda>i. \<not> isMongoId i) ids")
  case Nil
  then show ?thesis by (simp add: cast_failure_def list_all_iff filter_empty_conv)
next
  case (Cons i rest)
  from filter_Cons_member [OF Cons] have "\<not> list_all isMongoId ids"
    by (auto simp: list_all_iff)
  with Cons show ?thesis by (simp add: cast_failure_def)
qed

lemma cast_failure_Some:
  assumes "\<not> list_all isMongoId ids"
  shows "\<exists>i\<in>set ids. \<not> isMongoId i \<and> cast_failure ids = Some (CastError i)"
proof (cases "filter (\<lambda>i. \<not> isMongoId i) ids")
  case Nil
  with assms show ?thesis by (simp add: list_all_iff filter_empty_conv)
next
  case (Cons i rest)
  from filter_Cons_member [OF Cons] Cons show ?thesis
    by (auto simp: cast_failure_def)
qed

text \<open>
  C8, as the spec states it: an id of the message that matches no document is left out
  in silence, and the documents that exist are snapshotted and set to analyzed. The id
  D2 matches no document, and it is not the string of an ObjectId: the find throws a
  CastError on it. The error is logged, no analysis record is written, and the
  document that does exist stays as it was.
\<close>

theorem malformed_document_id_counterexample:
  "document_ids message3 = Some [doc_id1, ''D2''] \<and>
   map doc_id (docs store1) = [doc_id1] \<and>
   out_store (handleAnalysisMessage env_ok 10 (Parsed message3) store1) = store1 \<and>
   analyses store1 = [] \<and> map doc_status (docs store1) = [Uploaded] \<and>
   filter is_error_entry (out_log (handleAnalysisMessage env_ok 10 (Parsed message3) store1)) =
     [LogError (CastError ''D2''), LogStack (CastError ''D2'')]"
proof -
  have v: "validate message3 = Inr (''A1'', payload1)"
    by (simp add: validate_def message3_def message1_def payload1_def)
  have i: "has_document_ids message3" "ids_of message3 = [doc_id1, ''D2'']"
    by (simp_all add: has_document_ids_def ids_of_def message3_def)
  have m: "\<not> isMongoId ''D2''" by (simp add: isMongoId_def)
  have c: "cast_failure (ids_of message3) = Some (CastError ''D2'')"
    by (simp add: cast_failure_def i mongo_ids m)
  show ?thesis
    unfolding handle_cast_error [OF v i(1) c]
    by (simp add: caught_def) (simp add: message3_def store1_def doc1_def)
qed

text \<open>
  C8, amended: for a message with a non-empty list of document ids that are all strings
  of ObjectIds (24 hexadecimal digits), handled without a failing store call, the
  record's snapshot is the list of snapshots of the documents that exist among the ids,
  one entry per existing id; those documents are set to analyzed with the analysis id,
  no document is created for an id that matches none, and no error is logged. When an
  id is not the string of an ObjectId, the find throws a CastError for it: the error is
  logged and nothing is written.
\<close>

theorem snapshot_of_existing_documents:
  assumes v: "validate data = Inr (aid, ad)"
    and i: "document_ids data = Some ids" "ids \<noteq> []"
    and d: "distinct (map doc_id (docs s))"
  shows "(list_all isMongoId ids \<and> find_error env = None \<and> upsert_failure env data = None
            \<and> updateMany_error env = None \<longrightarrow>
          (\<exists>r. Analysis_findOne aid
                  (analyses (out_store (handleAnalysisMessage env now (Parsed data) s))) = Some r
             \<and> map subdoc (documents r) =
                 map snapshot (filter (\<lambda>d. doc_id d \<in> set (map cast_id ids)) (docs s))
             \<and> distinct (map (\<lambda>x. documentId (subdoc x)) (documents r))
             \<and> set (map (\<lambda>x. documentId (subdoc x)) (documents r)) =
                 set (map cast_id ids) \<inter> doc_id ` set (docs s))
          \<and> docs (out_store (handleAnalysisMessage env now (Parsed data) s)) =
              map (\<lambda>d. if doc_id d \<in> set (map cast_id ids)
                        then d\<lparr>doc_status := Analyzed, doc_analysisId := Some aid,
                               doc_updatedAt := now\<rparr>
                        else d) (docs s)
          \<and> map doc_id (docs (out_store (handleAnalysisMessage env now (Parsed data) s))) =
              map doc_id (docs s)
          \<and> filter is_error_entry (out_log (handleAnalysisMessage env now (Parsed data) s)) = [])
       \<and> (\<not> list_all isMongoId ids \<longrightarrow>
            out_store (handleAnalysisMessage env now (Parsed data) s) = s
            \<and> out_writes (handleAnalysisMessage env now (Parsed data) s) = []
            \<and> (\<exists>i\<in>set ids. \<not> isMongoId i
                 \<and> filter is_error_entry (out_log (handleAnalysisMessage env now (Parsed data) s)) =
                     [LogError (CastError i), LogStack (CastError i)]))"
proof (intro conjI impI)
  assume ok: "list_all isMongoId ids \<and> find_error env = None \<and> upsert_failure env data = None
            \<and> updateMany_error env = None"
  have h: "has_document_ids data" "ids_of data = ids"
    using i by (simp_all add: has_document_ids_def ids_of_def)
  from ok have cf: "cast_failure ids = None" by (simp add: cast_failure_None_iff)
  have e: "find_failure env (ids_of data) = None" "upsert_failure env data = None"
    "updateMany_error env = None"
    using ok by (simp_all add: find_failure_def h cf store_failure_def)
  let ?snaps = "map snapshot (filter (\<lambda>d. doc_id d \<in> set (map cast_id ids)) (docs s))"
  have sn: "snaps_of (docs s) data = ?snaps"
    by (simp add: snaps_of_def h Document_find_def)
  have f: "Analysis_findOne aid (analyses (out_store (handleAnalysisMessage env now (Parsed data) s)))
        = Some (apply_update now (new_ids env) data aid ad ?snaps
             (case Analysis_findOne aid (analyses s) of None \<Rightarrow> new_analysis now | Some r \<Rightarrow> r))"
    by (simp add: handle_analyses [OF v e(1,2)] findOneAndUpdate_findOne sn)
  have docs_r: "\<And>r. map subdoc (documents (apply_update now (new_ids env) data aid ad ?snaps r)) = ?snaps"
    by (simp add: apply_update_def)
  have ie: "map (\<lambda>x. documentId (subdoc x))
              (documents (apply_update now (new_ids env) data aid ad ?snaps r)) =
            filter (\<lambda>i. i \<in> set (map cast_id ids)) (map doc_id (docs s))" for r
  proof -
    have "map (\<lambda>x. documentId (subdoc x))
              (documents (apply_update now (new_ids env) data aid ad ?snaps r)) =
          map documentId (map subdoc (documents (apply_update now (new_ids env) data aid ad ?snaps r)))"
      by (simp add: comp_def)
    also have "\<dots> = map documentId ?snaps" by (simp only: docs_r)
    also have "\<dots> = filter (\<lambda>i. i \<in> set (map cast_id ids)) (map doc_id (docs s))"
      by (simp add: filter_map comp_def)
    finally show ?thesis .
  qed
  show "\<exists>r. Analysis_findOne aid
                  (analyses (out_store (handleAnalysisMessage env now (Parsed data) s))) = Some r
             \<and> map subdoc (documents r) =
                 map snapshot (filter (\<lambda>d. doc_id d \<in> set (map cast_id ids)) (docs s))
             \<and> distinct (map (\<lambda>x. documentId (subdoc x)) (documents r))
             \<and> set (map (\<lambda>x. documentId (subdoc x)) (documents r)) =
                 set (map cast_id ids) \<inter> doc_id ` set (docs s)"
    unfolding f
  proof (intro exI conjI)
    show "Some (apply_update now (new_ids env) data aid ad ?snaps
             (case Analysis_findOne aid (analyses s) of None \<Rightarrow> new_analysis now | Some r \<Rightarrow> r)) =
          Some (apply_update now (new_ids env) data aid ad ?snaps
             (case Analysis_findOne aid (analyses s) of None \<Rightarrow> new_analysis now | Some r \<Rightarrow> r))"
      by (rule refl)
  next
    show "map subdoc (documents (apply_update now (new_ids env) data aid ad ?snaps
             (case Analysis_findOne aid (analyses s) of None \<Rightarrow> new_analysis now | Some r \<Rightarrow> r))) =
          ?snaps"
      by (rule docs_r)
  next
    show "distinct (map (\<lambda>x. documentId (subdoc x)) (documents (apply_update now (new_ids env) data aid ad ?snaps
             (case Analysis_findOne aid (analyses s) of None \<Rightarrow> new_analysis now | Some r \<Rightarrow> r))))"
      unfolding ie using d by simp
  next
    show "set (map (\<lambda>x. documentId (subdoc x)) (documents (apply_update now (new_ids env) data aid ad ?snaps
             (case Analysis_findOne aid (analyses s) of None \<Rightarrow> new_analysis now | Some r \<Rightarrow> r)))) =
          set (map cast_id ids) \<inter> doc_id ` set (docs s)"
      unfolding ie by auto
  qed
  show "docs (out_store (handleAnalysisMessage env now (Parsed data) s)) =
           map (\<lambda>d. if doc_id d \<in> set (map cast_id ids)
                     then d\<lparr>doc_status := Analyzed, doc_analysisId := Some aid, doc_updatedAt := now\<rparr>
                     else d) (docs s)"
    by (simp add: handle_docs [OF v e] h updateMany_def)
  show "map doc_id (docs (out_store (handleAnalysisMessage env now (Parsed data) s))) =
           map doc_id (docs s)"
    by (simp add: handle_docs [OF v e] h updateMany_ids)
  show "filter is_error_entry (out_log (handleAnalysisMessage env now (Parsed data) s)) = []"
    by (rule handle_log_ok [OF v e])
next
  assume bad: "\<not> list_all isMongoId ids"
  have h: "has_document_ids data" "ids_of data = ids"
    using i by (simp_all add: has_document_ids_def ids_of_def)
  from cast_failure_Some [OF bad] obtain j where j: "j \<in> set ids" "\<not> isMongoId j"
      "cast_failure ids = Some (CastError j)"
    by blast
  from j(3) h have c: "cast_failure (ids_of data) = Some (CastError j)" by simp
  note hc = handle_cast_error [OF v h(1) c, of env now s]
  show "out_store (handleAnalysisMessage env now (Parsed data) s) = s"
    by (simp add: hc caught_def)
  show "out_writes (handleAnalysisMessage env now (Parsed data) s) = []"
    by (simp add: hc caught_def)
  have "filter is_error_entry (out_log (handleAnalysisMessage env now (Parsed data) s)) =
          [LogError (CastError j), LogStack (CastError j)]"
    by (simp add: hc caught_def)
  with j(1,2) show "\<exists>i\<in>set ids. \<not> isMongoId i
                 \<and> filter is_error_entry (out_log (handleAnalysisMessage env now (Parsed data) s)) =
                     [LogError (CastError i), LogStack (CastError i)]"
    by blast
qed

theorem snapshot_of_existing_documents_witness:
  "document_ids message1 = Some [doc_id1, doc_id2] \<and>
   list_all isMongoId [doc_id1, doc_id2] \<and>
   map doc_id (docs store1) = [doc_id1] \<and>
   (\<exists>r. Analysis_findOne ''A1''
          (analyses (out_store (handleAnalysisMessage env_ok 10 (Parsed message1) store1))) = Some r
        \<and> map subdoc (documents r) =
            [\<lparr>documentId = doc_id1, snap_filename = ''report.pdf'', snap_fileType = ''pdf''\<rparr>]) \<and>
   docs (out_store (handleAnalysisMessage env_ok 10 (Parsed message1) store1)) =
     [doc1\<lparr>doc_status := Analyzed, doc_analysisId := Some ''A1'', doc_updatedAt := 10\<rparr>] \<and>
   filter is_error_entry (out_log (handleAnalysisMessage env_ok 10 (Parsed message1) store1)) = [] \<and>
   document_ids message3 = Some [doc_id1, ''D2''] \<and> \<not> list_all isMongoId [doc_id1, ''D2''] \<and>
   out_store (handleAnalysisMessage env_ok 10 (Parsed message3) store1) = store1"
proof -
  have i: "document_ids message1 = Some [doc_id1, doc_id2]" "[doc_id1, doc_id2] \<noteq> ([]::string list)"
    by (simp_all add: message1_def)
  have i3: "document_ids message3 = Some [doc_id1, ''D2'']" "[doc_id1, ''D2''] \<noteq> ([]::string list)"
    by (simp_all add: message3_def)
  have v3: "validate message3 = Inr (''A1'', payload1)"
    by (simp add: validate_def message3_def message1_def payload1_def)
  have g: "list_all isMongoId [doc_id1, doc_id2]" by (simp add: mongo_ids)
  have b: "\<not> list_all isMongoId [doc_id1, ''D2'']" by (simp add: isMongoId_def)
  have e: "find_error env_ok = None" "updateMany_error env_ok = None"
    by (simp_all add: env_ok_def)
  have d: "distinct (map doc_id (docs store1))" "map doc_id (docs store1) = [doc_id1]"
    by (simp_all add: store1_def doc1_def)
  have ne: "doc_id1 \<noteq> doc_id2" by (simp add: doc_id1_def doc_id2_def)
  have sn: "map snapshot (filter (\<lambda>d. doc_id d \<in> set (map cast_id [doc_id1, doc_id2])) (docs store1)) =
      [\<lparr>documentId = doc_id1, snap_filename = ''report.pdf'', snap_fileType = ''pdf''\<rparr>]"
    by (simp add: store1_def doc1_def snapshot_def cast_ids)
  have up: "map (\<lambda>d. if doc_id d \<in> set (map cast_id [doc_id1, doc_id2])
                     then d\<lparr>doc_status := Analyzed, doc_analysisId := Some ''A1'', doc_updatedAt := 10\<rparr>
                     else d) (docs store1) =
        [doc1\<lparr>doc_status := Analyzed, doc_analysisId := Some ''A1'', doc_updatedAt := 10\<rparr>]"
    by (simp add: store1_def doc1_def cast_ids)
  note t = snapshot_of_existing_documents [OF validate_message1 i d(1), of env_ok 10]
  note t3 = snapshot_of_existing_documents [OF v3 i3 d(1), of env_ok 10]
  from t g e upsert_message1(1) obtain r where r: "Analysis_findOne ''A1''
          (analyses (out_store (handleAnalysisMessage env_ok 10 (Parsed message1) store1))) = Some r"
      "map subdoc (documents r) =
         map snapshot (filter (\<lambda>d. doc_id d \<in> set (map cast_id [doc_id1, doc_id2])) (docs store1))"
    by blast
  from t g e upsert_message1(1)
  have dc: "docs (out_store (handleAnalysisMessage env_ok 10 (Parsed message1) store1)) =
     [doc1\<lparr>doc_status := Analyzed, doc_analysisId := Some ''A1'', doc_updatedAt := 10\<rparr>]"
    unfolding up by blast
  from t g e upsert_message1(1)
  have lg: "filter is_error_entry (out_log (handleAnalysisMessage env_ok 10 (Parsed message1) store1)) = []"
    by blast
  from t3 b have un: "out_store (handleAnalysisMessage env_ok 10 (Parsed message3) store1) = store1"
    by blast
  from r sn have "\<exists>r. Analysis_findOne ''A1''
          (analyses (out_store (handleAnalysisMessage env_ok 10 (Parsed message1) store1))) = Some r
        \<and> map subdoc (documents r) =
            [\<lparr>documentId = doc_id1, snap_filename = ''report.pdf'', snap_fileType = ''pdf''\<rparr>]"
    by simp
  with i(1) i3(1) g b d(2) dc lg un show ?thesis by blast
qed







lemma list_ex_ids: "list_ex (\<lambda>r. analysisId r = a) rs \<longleftrightarrow> a \<in> set (map analysisId rs)"
  by (induction rs) auto

lemma findOneAndUpdate_keeps_ids:
  assumes "\<And>r. analysisId (upd r) = aid"
    and "list_ex (\<lambda>r. analysisId r = a) rs"
  shows "list_ex (\<lambda>r. analysisId r = a) (findOneAndUpdate aid upd fresh rs)"
  using assms(2) by (simp add: list_ex_ids findOneAndUpdate_ids [OF assms(1)])

lemma findOneAndUpdate_has_id:
  assumes "\<And>r. analysisId (upd r) = aid"
  shows "list_ex (\<lambda>r. analysisId r = aid) (findOneAndUpdate aid upd fresh rs)"
  by (auto simp: list_ex_ids findOneAndUpdate_ids [OF assms])

lemma refs_resolved_upsert:
  assumes "refs_resolved s" and "\<And>r. analysisId (upd r) = aid"
  shows "refs_resolved (s\<lparr>analyses := findOneAndUpdate aid upd fresh (analyses s)\<rparr>)"
  using assms(1) findOneAndUpdate_keeps_ids [OF assms(2)]
  by (fastforce simp: refs_resolved_def list_all_iff split: option.splits)

lemma refs_resolved_updateMany:
  assumes "refs_resolved s" and "list_ex (\<lambda>r. analysisId r = aid) (analyses s)"
  shows "refs_resolved (s\<lparr>docs := updateMany now ids aid (docs s)\<rparr>)"
  using assms by (auto simp: refs_resolved_def list_all_iff updateMany_def split: option.splits)

lemma handle_refs_resolved:
  assumes "refs_resolved s"
  shows "list_all refs_resolved (out_writes (handleAnalysisMessage env now message s))
         \<and> refs_resolved (out_store (handleAnalysisMessage env now message s))"
proof (cases message)
  case (Unparseable m)
  with assms show ?thesis by (simp add: handleAnalysisMessage_def caught_def)
next
  case (Parsed data)
  show ?thesis
  proof (cases "validate data")
    case (Inl e)
    with Parsed assms show ?thesis by (simp add: handleAnalysisMessage_def caught_def)
  next
    case (Inr p)
    obtain aid ad where p: "p = (aid, ad)" by (cases p)
    show ?thesis
    proof (cases "resolve_documents env (docs s) data")
      case (Inl e)
      with Parsed Inr p assms show ?thesis by (simp add: handleAnalysisMessage_def caught_def)
    next
      case snaps: (Inr snaps)
      let ?s1 = "s\<lparr>analyses := findOneAndUpdate aid
                    (apply_update now (new_ids env) data aid ad snaps)
                    (new_analysis now) (analyses s)\<rparr>"
      have r1: "refs_resolved ?s1"
        by (rule refs_resolved_upsert [OF assms]) simp
      have h1: "list_ex (\<lambda>r. analysisId r = aid) (analyses ?s1)"
        by (simp add: findOneAndUpdate_has_id)
      have r2: "refs_resolved (?s1\<lparr>docs := updateMany now (ids_of data) aid (docs ?s1)\<rparr>)"
        by (rule refs_resolved_updateMany [OF r1 h1])
      from Parsed Inr p snaps assms r1 r2 show ?thesis
        by (simp add: handleAnalysisMessage_def caught_def Let_def split: option.splits)
    qed
  qed
qed

lemma consume_refs_resolved:
  "refs_resolved s \<Longrightarrow>
     list_all refs_resolved (out_writes (consume ds s)) \<and> refs_resolved (out_store (consume ds s))"
proof (induction ds arbitrary: s)
  case Nil
  then show ?case by simp
next
  case (Cons d ds)
  obtain env now message where d: "d = (env, now, message)" by (cases d)
  from handle_refs_resolved [OF Cons.prems, of env now message]
  have 1: "list_all refs_resolved (out_writes (handleAnalysisMessage env now message s))"
    and 2: "refs_resolved (out_store (handleAnalysisMessage env now message s))" by simp_all
  from Cons.IH [OF 2] 1 show ?case by (simp add: d Let_def)
qed

lemma upsert_failed_writes_nothing:
  assumes "upsert_error env = Some e"
  shows "out_store (handleAnalysisMessage env now message s) = s
         \<and> out_writes (handleAnalysisMessage env now message s) = []"
proof (cases message)
  case (Unparseable m)
  then show ?thesis by (simp add: handleAnalysisMessage_def caught_def)
next
  case (Parsed data)
  have "upsert_failure env data \<noteq> None"
    by (cases "cast_failure (case company_id data of None \<Rightarrow> [] | Some c \<Rightarrow> [c])")
      (simp_all add: upsert_failure_def store_failure_def assms)
  then obtain e' where "upsert_failure env data = Some e'" by blast
  with Parsed show ?thesis
    by (simp add: handleAnalysisMessage_def caught_def Let_def split: sum.splits prod.splits)
qed

lemma handle_writes_have_record:
  assumes "validate data = Inr (aid, ad)"
  shows "list_all (\<lambda>w. list_ex (\<lambda>r. analysisId r = aid) (analyses w))
           (out_writes (handleAnalysisMessage env now (Parsed data) s))"
  using assms
  by (simp add: handleAnalysisMessage_def caught_def Let_def findOneAndUpdate_has_id
      split: sum.splits option.splits)

text \<open>
  C4. Starting from a store in which every analyzed document refers to an existing
  analysis record, every store state written while the subscription handles any
  sequence of deliveries keeps that property; when the upsert fails the handler
  writes nothing, so no document is marked; and every state written for a valid
  message already holds the record of its analysis id.
\<close>

theorem analyzed_documents_have_their_analysis:
  "(refs_resolved s \<longrightarrow>
      list_all refs_resolved (out_writes (consume ds s)) \<and> refs_resolved (out_store (consume ds s)))
   \<and> (upsert_error env \<noteq> None \<longrightarrow>
        out_store (handleAnalysisMessage env now message s) = s
        \<and> out_writes (handleAnalysisMessage env now message s) = [])
   \<and> (validate data = Inr (aid, ad) \<longrightarrow>
        list_all (\<lambda>w. list_ex (\<lambda>r. analysisId r = aid) (analyses w))
          (out_writes (handleAnalysisMessage env now (Parsed data) s)))"
  using consume_refs_resolved [of s ds] upsert_failed_writes_nothing [of env _ now message s]
    handle_writes_have_record [of data aid ad env now s]
  by blast

theorem analyzed_documents_have_their_analysis_witness:
  "refs_resolved store1 \<and>
   list_all refs_resolved (out_writes (consume [(env_ok, 10, Parsed message1)] store1)) \<and>
   refs_resolved (out_store (consume [(env_ok, 10, Parsed message1)] store1)) \<and>
   map doc_status (docs (out_store (consume [(env_ok, 10, Parsed message1)] store1))) = [Analyzed] \<and>
   upsert_error env_down \<noteq> None \<and>
   out_store (handleAnalysisMessage env_down 10 (Parsed message1) store1) = store1 \<and>
   validate message1 = Inr (''A1'', payload1) \<and>
   list_all (\<lambda>w. list_ex (\<lambda>r. analysisId r = ''A1'') (analyses w))
     (out_writes (handleAnalysisMessage env_ok 10 (Parsed message1) store1))"
proof -
  have r: "refs_resolved store1"
    by (simp add: refs_resolved_def store1_def doc1_def)
  have u: "upsert_error env_down \<noteq> None"
    by (simp add: env_down_def)
  have st: "map doc_status (docs (out_store (consume [(env_ok, 10, Parsed message1)] store1))) = [Analyzed]"
    unfolding consume.simps Let_def outcome.simps
      handle_docs [OF validate_message1 find_message1(1) upsert_message1(1) updateMany_ok(1)]
    by (simp add: updateMany_def store1_def ids_message1 cast_ids doc1_def)
  note t1 = analyzed_documents_have_their_analysis
    [of store1 "[(env_ok, 10, Parsed message1)]" env_down 10 "Parsed message1" message1 "''A1''" payload1]
  note t2 = analyzed_documents_have_their_analysis
    [of store1 "[(env_ok, 10, Parsed message1)]" env_ok 10 "Parsed message1" message1 "''A1''" payload1]
  from t1 t2 r u st validate_message1 show ?thesis by blast
qed

section \<open>Properties of the comparison engine\<close>




































end
